theory Spec2Isabelle
  imports Complex_Main "HOL-Library.Multiset"
begin

section \<open>JavaScript numbers\<close>

text \<open>
  The engine is JavaScript. Timestamps, byte counts and counters are integers and are
  modelled as \<open>int\<close>. Quantities that the code scales by a decimal factor or divides
  (timers, percentages, configuration values) are modelled as exact rationals. The
  memory usage percentage is the one value that can leave the finite numbers (a division
  by a total of zero megabytes), so it carries the non-finite values of the language.
\<close>

datatype jsnum = Num rat | PosInf | NegInf | NaN

text \<open>\<open>x > r\<close> for a finite right operand; every comparison with NaN is false.\<close>

fun jsGt :: "jsnum \<Rightarrow> rat \<Rightarrow> bool" where
  "jsGt (Num a) r = (r < a)"
| "jsGt PosInf r = True"
| "jsGt NegInf r = False"
| "jsGt NaN r = False"

text \<open>\<open>x >= y\<close> on two values.\<close>

fun jsGe :: "jsnum \<Rightarrow> jsnum \<Rightarrow> bool" where
  "jsGe NaN y = False"
| "jsGe x NaN = False"
| "jsGe PosInf y = True"
| "jsGe (Num a) PosInf = False"
| "jsGe (Num a) (Num b) = (b \<le> a)"
| "jsGe (Num a) NegInf = True"
| "jsGe NegInf PosInf = False"
| "jsGe NegInf (Num b) = False"
| "jsGe NegInf NegInf = True"

text \<open>\<open>Math.round\<close>: the nearest integer, a half rounded towards plus infinity.\<close>

definition mathRound :: "rat \<Rightarrow> int" where
  "mathRound x = \<lfloor>x + 1 / 2\<rfloor>"

text \<open>\<open>Math.ceil\<close>.\<close>

definition mathCeil :: "rat \<Rightarrow> int" where
  "mathCeil x = \<lceil>x\<rceil>"

text \<open>
  \<open>parseFloat(x.toFixed(1))\<close> on a finite value: one decimal digit, a tie rounded away
  from zero. The tie is decided here on the exact quotient; the code decides it on the
  double nearest to the quotient, which can lie on the other side of the tie (for 1701 of
  2000 megabytes the code gives 85.0 and this function 85.1).
\<close>

definition toFixed1 :: "rat \<Rightarrow> rat" where
  "toFixed1 x = (if x < 0 then - (of_int \<lfloor>- x * 10 + 1 / 2\<rfloor> / 10)
                 else of_int \<lfloor>x * 10 + 1 / 2\<rfloor> / 10)"

text \<open>
  \<open>parseFloat(((usedMB / totalMB) * 100).toFixed(1))\<close>. A zero divisor gives NaN for
  \<open>0 / 0\<close> and a signed infinity otherwise; \<open>toFixed\<close> prints those and \<open>parseFloat\<close>
  reads them back.
\<close>

definition percentOf :: "int \<Rightarrow> int \<Rightarrow> jsnum" where
  "percentOf usedM totalM =
     (if totalM = 0 then (if usedM = 0 then NaN else if 0 < usedM then PosInf else NegInf)
      else Num (toFixed1 (of_int usedM / of_int totalM * 100)))"

section \<open>Configuration (ResourceControls.config, updateConfig)\<close>

record config =
  ramLimit :: rat
  sleepTimer :: rat
  autoSleep :: bool
  aggressiveMode :: bool
  checkInterval :: rat
  updateInterval :: rat
  minInactiveTime :: rat
  maxCacheAge :: rat
  emergencyThreshold :: rat
  warningThreshold :: rat
  optimalThreshold :: rat

text \<open>The values the constructor installs.\<close>

definition defaultConfig :: config where
  "defaultConfig =
     \<lparr> ramLimit = 2000, sleepTimer = 10, autoSleep = False, aggressiveMode = False,
       checkInterval = 60000, updateInterval = 3000, minInactiveTime = 60000,
       maxCacheAge = 2000, emergencyThreshold = 85, warningThreshold = 70,
       optimalThreshold = 60 \<rparr>"

text \<open>
  The argument of \<open>updateConfig\<close> is a partial settings object: every key may be absent
  (\<open>None\<close>) or present with a value.
\<close>

record config_update =
  newRamLimit :: "rat option"
  newSleepTimer :: "rat option"
  newAutoSleep :: "bool option"
  newAggressiveMode :: "bool option"
  newCheckInterval :: "rat option"
  newUpdateInterval :: "rat option"
  newMinInactiveTime :: "rat option"
  newMaxCacheAge :: "rat option"
  newEmergencyThreshold :: "rat option"
  newWarningThreshold :: "rat option"
  newOptimalThreshold :: "rat option"

definition noUpdate :: config_update where
  "noUpdate =
     \<lparr> newRamLimit = None, newSleepTimer = None, newAutoSleep = None,
       newAggressiveMode = None, newCheckInterval = None, newUpdateInterval = None,
       newMinInactiveTime = None, newMaxCacheAge = None, newEmergencyThreshold = None,
       newWarningThreshold = None, newOptimalThreshold = None \<rparr>"

text \<open>
  \<open>if (newConfig.ramLimit) { ... }\<close>: the guard is the truthiness of the value, which
  an absent key fails and which the number zero fails as well.
\<close>

fun truthy :: "rat option \<Rightarrow> bool" where
  "truthy None = False"
| "truthy (Some v) = (v \<noteq> 0)"

text \<open>\<open>Math.max(lo, Math.min(hi, v))\<close>.\<close>

definition clampTo :: "rat \<Rightarrow> rat \<Rightarrow> rat \<Rightarrow> rat" where
  "clampTo lo hi v = max lo (min hi v)"

text \<open>The two range validations at the head of \<open>updateConfig\<close>, which rewrite the argument.\<close>

definition validateRanges :: "config_update \<Rightarrow> config_update" where
  "validateRanges u =
     (let u1 = (if truthy (newRamLimit u)
                then u\<lparr>newRamLimit := map_option (clampTo 1000 5000) (newRamLimit u)\<rparr>
                else u)
      in (if truthy (newSleepTimer u1)
          then u1\<lparr>newSleepTimer := map_option (clampTo 1 60) (newSleepTimer u1)\<rparr>
          else u1))"

text \<open>\<open>Object.assign(this.config, newConfig)\<close>: every present key overwrites the stored one.\<close>

definition assignConfig :: "config \<Rightarrow> config_update \<Rightarrow> config" where
  "assignConfig c u =
     \<lparr> ramLimit = (case newRamLimit u of None \<Rightarrow> ramLimit c | Some v \<Rightarrow> v),
       sleepTimer = (case newSleepTimer u of None \<Rightarrow> sleepTimer c | Some v \<Rightarrow> v),
       autoSleep = (case newAutoSleep u of None \<Rightarrow> autoSleep c | Some v \<Rightarrow> v),
       aggressiveMode = (case newAggressiveMode u of None \<Rightarrow> aggressiveMode c | Some v \<Rightarrow> v),
       checkInterval = (case newCheckInterval u of None \<Rightarrow> checkInterval c | Some v \<Rightarrow> v),
       updateInterval = (case newUpdateInterval u of None \<Rightarrow> updateInterval c | Some v \<Rightarrow> v),
       minInactiveTime = (case newMinInactiveTime u of None \<Rightarrow> minInactiveTime c | Some v \<Rightarrow> v),
       maxCacheAge = (case newMaxCacheAge u of None \<Rightarrow> maxCacheAge c | Some v \<Rightarrow> v),
       emergencyThreshold =
         (case newEmergencyThreshold u of None \<Rightarrow> emergencyThreshold c | Some v \<Rightarrow> v),
       warningThreshold =
         (case newWarningThreshold u of None \<Rightarrow> warningThreshold c | Some v \<Rightarrow> v),
       optimalThreshold =
         (case newOptimalThreshold u of None \<Rightarrow> optimalThreshold c | Some v \<Rightarrow> v) \<rparr>"

text \<open>
  \<open>updateConfig\<close>: validate, then merge. The same validated object is what the
  function writes to storage; the stored configuration is the result here.
\<close>

definition updateConfig :: "config_update \<Rightarrow> config \<Rightarrow> config" where
  "updateConfig u c = assignConfig c (validateRanges u)"

section \<open>Memory sampling (ResourceControls.getMemoryInfo)\<close>

datatype mem_status = Optimal | Elevated | Warning | Critical

text \<open>The order of the tiers: optimal, elevated, warning, critical.\<close>

fun severity :: "mem_status \<Rightarrow> nat" where
  "severity Optimal = 0"
| "severity Elevated = 1"
| "severity Warning = 2"
| "severity Critical = 3"

record memory_reading =
  totalMB :: int
  availableMB :: int
  usedMB :: int
  usagePercent :: jsnum
  totalBytes :: int
  availableBytes :: int
  status :: mem_status
  timestamp :: int
  stale :: bool

text \<open>
  The status chain: \<open>optimal\<close> unless the percentage exceeds a threshold, the emergency
  threshold tested first.
\<close>

definition memoryStatus :: "config \<Rightarrow> jsnum \<Rightarrow> mem_status" where
  "memoryStatus c u =
     (if jsGt u (emergencyThreshold c) then Critical
      else if jsGt u (warningThreshold c) then Warning
      else if jsGt u (optimalThreshold c) then Elevated
      else Optimal)"

text \<open>
  The reading built from a successful answer of the memory source, \<open>capacity\<close> and
  \<open>availableCapacity\<close> in bytes, at time \<open>now\<close>.
\<close>

definition newReading :: "config \<Rightarrow> int \<Rightarrow> int \<Rightarrow> int \<Rightarrow> memory_reading" where
  "newReading c now capacity availableCapacity =
     (let totalM = mathRound (of_int capacity / (1024 * 1024));
          availableM = mathRound (of_int availableCapacity / (1024 * 1024));
          usedM = totalM - availableM;
          percent = percentOf usedM totalM
      in \<lparr> totalMB = totalM, availableMB = availableM, usedMB = usedM,
           usagePercent = percent, totalBytes = capacity,
           availableBytes = availableCapacity, status = memoryStatus c percent,
           timestamp = now, stale = False \<rparr>)"

text \<open>
  The sampler's state: the configuration, the cached reading (\<open>null\<close> at first) and the
  time it was taken.
\<close>

record sampler =
  samplerConfig :: config
  memoryCache :: "memory_reading option"
  memoryCacheTime :: int

definition newSampler :: sampler where
  "newSampler = \<lparr> samplerConfig = defaultConfig, memoryCache = None, memoryCacheTime = 0 \<rparr>"

text \<open>\<open>this.memoryCache && (now - this.memoryCacheTime) < this.config.maxCacheAge\<close>.\<close>

definition cacheFresh :: "int \<Rightarrow> sampler \<Rightarrow> bool" where
  "cacheFresh now s =
     (case memoryCache s of
        None \<Rightarrow> False
      | Some r \<Rightarrow> of_int (now - memoryCacheTime s) < maxCacheAge (samplerConfig s))"

text \<open>
  \<open>getMemoryInfo\<close>. The memory source is the host's \<open>chrome.system.memory.getInfo\<close>;
  its answer to this call is the argument \<open>src\<close>: \<open>Some (capacity, availableCapacity)\<close>,
  or \<open>None\<close> when the call throws. A fresh cache is returned without asking the source.
  The result is the reading, or \<open>None\<close> for the \<open>null\<close> the function returns when it has no
  data; the second component is the sampler afterwards.
\<close>

definition getMemoryInfo ::
  "int \<Rightarrow> (int \<times> int) option \<Rightarrow> sampler \<Rightarrow> memory_reading option \<times> sampler" where
  "getMemoryInfo now src s =
     (if cacheFresh now s then (memoryCache s, s)
      else
        (case src of
           Some (capacity, availableCapacity) \<Rightarrow>
             (let r = newReading (samplerConfig s) now capacity availableCapacity
              in (Some r, s\<lparr>memoryCache := Some r, memoryCacheTime := now\<rparr>))
         | None \<Rightarrow>
             (case memoryCache s of
                Some r \<Rightarrow> (Some (r\<lparr>stale := True\<rparr>), s)
              | None \<Rightarrow> (None, s))))"

section \<open>Strings and host names\<close>

text \<open>
  Strings are lists of 8-bit characters. Case conversion and white space cover ASCII,
  which is what host names are made of once the platform has parsed them.
\<close>

text \<open>\<open>s.startsWith(p)\<close>.\<close>

definition startsWith :: "string \<Rightarrow> string \<Rightarrow> bool" where
  "startsWith s p = (take (length p) s = p)"

text \<open>\<open>p\<close> occurs somewhere in \<open>s\<close>: an unanchored test of a literal.\<close>

fun containsText :: "string \<Rightarrow> string \<Rightarrow> bool" where
  "containsText [] p = (p = [])"
| "containsText (c # cs) p = (startsWith (c # cs) p \<or> containsText cs p)"

text \<open>
  \<open>/a|b|c/.test(s)\<close> for an unanchored alternation of literals (an escaped dot is the
  literal dot): some alternative occurs in \<open>s\<close>.
\<close>

definition testAny :: "string list \<Rightarrow> string \<Rightarrow> bool" where
  "testAny alternatives s = list_ex (containsText s) alternatives"

definition toLowerChar :: "char \<Rightarrow> char" where
  "toLowerChar c =
     (case map_of (zip ''ABCDEFGHIJKLMNOPQRSTUVWXYZ'' ''abcdefghijklmnopqrstuvwxyz'') c of
        None \<Rightarrow> c
      | Some l \<Rightarrow> l)"

definition toLowerCase :: "string \<Rightarrow> string" where
  "toLowerCase s = map toLowerChar s"

definition isSpace :: "char \<Rightarrow> bool" where
  "isSpace c = (c \<in> set [CHR '' '', CHR 0x09, CHR 0x0A, CHR 0x0B, CHR 0x0C, CHR 0x0D])"

definition trim :: "string \<Rightarrow> string" where
  "trim s = rev (dropWhile isSpace (rev (dropWhile isSpace s)))"

text \<open>
  \<open>new URL(url).hostname\<close> belongs to the platform, not to the repository. The functions
  that call it take it as a parameter: the host name of a string, or \<open>None\<close> when the
  constructor throws. Every general statement below holds for any such reader.
\<close>

type_synonym url_reader = "string \<Rightarrow> string option"

text \<open>
  One concrete reader, for the worked scenarios: it reads \<open>scheme://[user@]host[:port]\<close>
  followed by a path, a query or a fragment, lower-cases the host and rejects every string
  of another shape.
\<close>

definition schemeChar :: "char \<Rightarrow> bool" where
  "schemeChar c =
     (c \<in> set ''abcdefghijklmnopqrstuvwxyzABCDEFGHIJKLMNOPQRSTUVWXYZ0123456789+-.'')"

definition simpleHostname :: url_reader where
  "simpleHostname u =
     (let scheme = takeWhile (\<lambda>c. c \<noteq> CHR '':'') u;
          rest = dropWhile (\<lambda>c. c \<noteq> CHR '':'') u;
          authority = takeWhile (\<lambda>c. c \<notin> set ''/?#'') (drop 3 rest);
          hostport = rev (takeWhile (\<lambda>c. c \<noteq> CHR ''@'') (rev authority));
          host = takeWhile (\<lambda>c. c \<noteq> CHR '':'') hostport
      in if scheme \<noteq> [] \<and> list_all schemeChar scheme \<and> startsWith rest ''://'' \<and> host \<noteq> []
         then Some (toLowerCase host)
         else None)"

section \<open>Domain policy (WhitelistManager)\<close>

text \<open>
  A compiled pattern. \<open>compilePatterns\<close> escapes every dot, turns every \<open>*\<close> into \<open>.*\<close>,
  wraps the result in \<open>^\<close> and \<open>$\<close> and hands it to \<open>new RegExp\<close> with the flag \<open>i\<close>. For an
  entry that holds no other operator of the regular-expression syntax the expression is a
  sequence of literal characters and any-runs, which is the form modelled.
\<close>

datatype rx_item = RxChar char | RxAnyRun

type_synonym regex = "rx_item list"

text \<open>A dot of a regular expression matches every character but a line terminator.\<close>

definition lineTerminator :: "char \<Rightarrow> bool" where
  "lineTerminator c = (c = CHR 0x0A \<or> c = CHR 0x0D)"

text \<open>
  \<open>pattern.test(domain)\<close>: the whole string is matched (both anchors), letters without
  regard to case.
\<close>

fun rxTest :: "regex \<Rightarrow> string \<Rightarrow> bool" where
  "rxTest [] [] = True"
| "rxTest [] (d # ds) = False"
| "rxTest (RxChar c # ps) [] = False"
| "rxTest (RxChar c # ps) (d # ds) = (toLowerChar c = toLowerChar d \<and> rxTest ps ds)"
| "rxTest (RxAnyRun # ps) [] = rxTest ps []"
| "rxTest (RxAnyRun # ps) (d # ds) =
     (rxTest ps (d # ds) \<or> (\<not> lineTerminator d \<and> rxTest (RxAnyRun # ps) ds))"

text \<open>
  The characters that keep a meaning of their own in the source of a regular expression,
  besides the dot and the star that the translation takes care of: the backslash and
  \<open>^ $ + ? ( ) [ ] { } |\<close>. An entry without them is plain.
\<close>

definition regexOperator :: "char \<Rightarrow> bool" where
  "regexOperator c = (c = CHR 0x5C \<or> c \<in> set ''^$+?()[]{}|'')"

definition plainEntry :: "string \<Rightarrow> bool" where
  "plainEntry d = list_all (\<lambda>c. \<not> regexOperator c) d"

text \<open>The expression of a plain entry: every \<open>*\<close> an any-run, every other character itself.\<close>

definition translateEntry :: "string \<Rightarrow> regex" where
  "translateEntry d = map (\<lambda>c. if c = CHR ''*'' then RxAnyRun else RxChar c) d"

text \<open>
  The body of the loop of \<open>compilePatterns\<close> for one entry. On an entry that is not plain
  the constructor throws (\<open>[\<close>, which is what \<open>normalizeDomain\<close> leaves of \<open>[::1]\<close>, is one) or
  builds an expression that is not of the modelled form (\<open>a+b\<close>); the result is \<open>None\<close> in
  both cases, and the model follows the manager no further.
\<close>

definition compileDomain :: "string \<Rightarrow> regex option" where
  "compileDomain d = (if plainEntry d then Some (translateEntry d) else None)"

text \<open>
  The manager: the two sets (JavaScript sets keep insertion order and hold no entry
  twice) and the pattern lists compiled from them.
\<close>

record whitelist_manager =
  whitelist :: "string list"
  blacklist :: "string list"
  whitelistPatterns :: "regex list"
  blacklistPatterns :: "regex list"

definition newManager :: whitelist_manager where
  "newManager = \<lparr> whitelist = [], blacklist = [], whitelistPatterns = [],
                  blacklistPatterns = [] \<rparr>"

text \<open>\<open>set.add(d)\<close>.\<close>

definition setAdd :: "string \<Rightarrow> string list \<Rightarrow> string list" where
  "setAdd d xs = (if d \<in> set xs then xs else xs @ [d])"

text \<open>
  \<open>compilePatterns(type)\<close>: one pattern per entry of the set, in its order. The new list is
  assigned only after the loop, so nothing is assigned when an entry of the set, old or
  new, stops it.
\<close>

fun compilePatterns :: "string list \<Rightarrow> regex list option" where
  "compilePatterns [] = Some []"
| "compilePatterns (d # ds) =
     (case compileDomain d of
        None \<Rightarrow> None
      | Some p \<Rightarrow>
          (case compilePatterns ds of
             None \<Rightarrow> None
           | Some ps \<Rightarrow> Some (p # ps)))"

text \<open>
  \<open>normalizeDomain\<close>: \<open>null\<close> for an empty argument; otherwise trimmed, lower-cased,
  without a leading \<open>http://\<close> or \<open>https://\<close>, cut at the first slash and then at the
  first colon.
\<close>

definition stripProtocol :: "string \<Rightarrow> string" where
  "stripProtocol s =
     (if startsWith s ''http://'' then drop 7 s
      else if startsWith s ''https://'' then drop 8 s
      else s)"

definition normalizeDomain :: "string \<Rightarrow> string option" where
  "normalizeDomain d =
     (if d = [] then None
      else Some (takeWhile (\<lambda>c. c \<noteq> CHR '':'')
                  (takeWhile (\<lambda>c. c \<noteq> CHR ''/'')
                    (stripProtocol (toLowerCase (trim d))))))"

text \<open>
  \<open>addToWhitelist\<close> and \<open>addToBlacklist\<close>: \<open>false\<close> and no change when the normalised
  domain is \<open>null\<close> or empty. Otherwise the entry is added to the set and the patterns of
  that list are compiled again; when that succeeds the new patterns are stored and the
  answer is \<open>true\<close>. When the compilation stops at an entry that is not plain, the code has
  the entry in the set and either rejects the call with the old patterns still in place or
  stores an expression outside the modelled form: the result is \<open>None\<close>.
\<close>

definition addToWhitelist ::
  "string \<Rightarrow> whitelist_manager \<Rightarrow> (bool \<times> whitelist_manager) option" where
  "addToWhitelist d m =
     (case normalizeDomain d of
        None \<Rightarrow> Some (False, m)
      | Some n \<Rightarrow>
          if n = [] then Some (False, m)
          else (let entries = setAdd n (whitelist m)
                in case compilePatterns entries of
                     None \<Rightarrow> None
                   | Some ps \<Rightarrow>
                       Some (True, m\<lparr>whitelist := entries, whitelistPatterns := ps\<rparr>)))"

definition addToBlacklist ::
  "string \<Rightarrow> whitelist_manager \<Rightarrow> (bool \<times> whitelist_manager) option" where
  "addToBlacklist d m =
     (case normalizeDomain d of
        None \<Rightarrow> Some (False, m)
      | Some n \<Rightarrow>
          if n = [] then Some (False, m)
          else (let entries = setAdd n (blacklist m)
                in case compilePatterns entries of
                     None \<Rightarrow> None
                   | Some ps \<Rightarrow>
                       Some (True, m\<lparr>blacklist := entries, blacklistPatterns := ps\<rparr>)))"

text \<open>
  \<open>isWhitelisted\<close> and \<open>isBlacklisted\<close>: the whole body is inside \<open>try\<close>, and the handler
  returns \<open>false\<close>. The exact entry is tried first, then every compiled pattern.
\<close>

definition isWhitelisted :: "url_reader \<Rightarrow> whitelist_manager \<Rightarrow> string \<Rightarrow> bool" where
  "isWhitelisted hostnameOf m u =
     (case hostnameOf u of
        None \<Rightarrow> False
      | Some d \<Rightarrow> d \<in> set (whitelist m) \<or> list_ex (\<lambda>p. rxTest p d) (whitelistPatterns m))"

definition isBlacklisted :: "url_reader \<Rightarrow> whitelist_manager \<Rightarrow> string \<Rightarrow> bool" where
  "isBlacklisted hostnameOf m u =
     (case hostnameOf u of
        None \<Rightarrow> False
      | Some d \<Rightarrow> d \<in> set (blacklist m) \<or> list_ex (\<lambda>p. rxTest p d) (blacklistPatterns m))"

text \<open>
  \<open>canSleep\<close>: \<open>false\<close> for a whitelisted URL, \<open>true\<close> for a blacklisted one, \<open>null\<close>
  (the default rules) otherwise.
\<close>

definition canSleep :: "url_reader \<Rightarrow> whitelist_manager \<Rightarrow> string \<Rightarrow> bool option" where
  "canSleep hostnameOf m u =
     (if isWhitelisted hostnameOf m u then Some False
      else if isBlacklisted hostnameOf m u then Some True
      else None)"

text \<open>\<open>getSleepPriority\<close>: 0 never sleeps, 1 normal, 2 sleeps with priority.\<close>

definition getSleepPriority :: "url_reader \<Rightarrow> whitelist_manager \<Rightarrow> string \<Rightarrow> nat" where
  "getSleepPriority hostnameOf m u =
     (if isWhitelisted hostnameOf m u then 0
      else if isBlacklisted hostnameOf m u then 2
      else 1)"

section \<open>Tabs and the sleep score (ResourceControls)\<close>

text \<open>The record the engine keeps per tab; \<open>lastSleepTime\<close> is \<open>null\<close> until the first sleep.\<close>

record tab_metadata =
  createdAt :: int
  activationCount :: int
  totalActiveTime :: int
  lastSleepTime :: "int option"
  sleepCount :: int

text \<open>What the host reports for a tab, as far as the engine reads it.\<close>

record host_tab =
  hostId :: int
  hostUrl :: string
  hostAudible :: bool
  discarded :: bool

text \<open>
  An entry of \<open>getTabsInfo().tabs\<close>, with the fields the decisions read. Times are
  milliseconds.
\<close>

record tab_info =
  tabId :: int
  url :: string
  isActive :: bool
  isSleeping :: bool
  audible :: bool
  lastActivity :: int
  inactiveTime :: int
  metadata :: "tab_metadata option"
  sleepScore :: int

text \<open>
  \<open>calculateSleepScore(tab, inactiveTime, metadata, isActive, isSleeping)\<close>, with the
  clock reading \<open>now\<close> of its \<open>Date.now()\<close>. The score stays an integer throughout, so
  \<open>Math.round\<close> leaves it as it is. A URL the platform rejects skips the URL terms.
\<close>

definition calculateSleepScore ::
  "url_reader \<Rightarrow> int \<Rightarrow> host_tab \<Rightarrow> int \<Rightarrow> tab_metadata option \<Rightarrow> bool \<Rightarrow> bool \<Rightarrow> int" where
  "calculateSleepScore hostnameOf now tab inactiveT md active sleeping =
     (if active \<or> sleeping then 0
      else
        (let inactiveMinutes = (of_int inactiveT / 60000 :: rat);
             s1 = 50 + (if 60 < inactiveMinutes then 30
                        else if 30 < inactiveMinutes then 20
                        else if 15 < inactiveMinutes then 10
                        else if 5 < inactiveMinutes then 5
                        else 0);
             s2 = (case md of
                     None \<Rightarrow> s1
                   | Some m \<Rightarrow>
                       (let a = s1 + (if activationCount m < 3 then 15
                                      else if activationCount m < 10 then 5
                                      else if 30 < activationCount m then - 15
                                      else 0)
                        in case lastSleepTime m of
                             None \<Rightarrow> a
                           | Some t \<Rightarrow> if t \<noteq> 0 \<and> now - t < 300000 then a - 20 else a));
             s3 = (case hostnameOf (hostUrl tab) of
                     None \<Rightarrow> s2
                   | Some h \<Rightarrow>
                       s2
                       + (if testAny [''gmail'', ''docs.google'', ''drive'', ''calendar'',
                                      ''notion'', ''slack''] h then - 15 else 0)
                       + (if testAny [''facebook'', ''twitter'', ''instagram'', ''tiktok'',
                                      ''youtube'', ''netflix''] h then 10 else 0)
                       + (if testAny [''news'', ''blog'', ''medium'', ''reddit''] h then 5 else 0))
         in max 0 (min 100 s3)))"

text \<open>
  The entry \<open>getTabsInfo\<close> builds for one tab: \<open>activeId\<close> is the id of the active tab of
  the current window, if there is one; the two maps are \<open>tabActivityTimes\<close> and
  \<open>tabMetadata\<close>. A missing or zero activity time counts as \<open>now\<close>, an empty URL is shown as
  \<open>about:blank\<close>.
\<close>

definition tabInfo ::
  "url_reader \<Rightarrow> int \<Rightarrow> int option \<Rightarrow> (int \<rightharpoonup> int) \<Rightarrow> (int \<rightharpoonup> tab_metadata) \<Rightarrow> host_tab
     \<Rightarrow> tab_info" where
  "tabInfo hostnameOf now activeId activity metas tab =
     (let active = (activeId = Some (hostId tab));
          sleeping = discarded tab;
          lastAct = (case activity (hostId tab) of
                       None \<Rightarrow> now
                     | Some t \<Rightarrow> if t = 0 then now else t);
          inactiveT = now - lastAct;
          md = metas (hostId tab)
      in \<lparr> tabId = hostId tab,
           url = (if hostUrl tab = [] then ''about:blank'' else hostUrl tab),
           isActive = active, isSleeping = sleeping, audible = hostAudible tab,
           lastActivity = lastAct, inactiveTime = inactiveT, metadata = md,
           sleepScore = calculateSleepScore hostnameOf now tab inactiveT md active sleeping \<rparr>)"

definition getTabsInfo ::
  "url_reader \<Rightarrow> int \<Rightarrow> int option \<Rightarrow> (int \<rightharpoonup> int) \<Rightarrow> (int \<rightharpoonup> tab_metadata) \<Rightarrow> host_tab list
     \<Rightarrow> tab_info list" where
  "getTabsInfo hostnameOf now activeId activity metas tabs =
     map (tabInfo hostnameOf now activeId activity metas) tabs"

section \<open>Selection (ResourceControls.checkAndSleepTabs)\<close>

definition isSystemPage :: "string \<Rightarrow> bool" where
  "isSystemPage u =
     (startsWith u ''chrome://'' \<or> startsWith u ''chrome-extension://'' \<or>
      startsWith u ''edge://'' \<or> startsWith u ''about:'' \<or> startsWith u ''data:'')"

definition isValidSleepCandidate :: "tab_info \<Rightarrow> bool" where
  "isValidSleepCandidate t =
     (\<not> isActive t \<and> \<not> isSleeping t \<and> \<not> audible t \<and> \<not> isSystemPage (url t))"

text \<open>
  \<open>calculateEffectiveSleepTimer\<close>. The products with the decimal factors are exact here;
  the doubles of the code differ from them by one rounding at most (180000 times 0.7 is
  125999.99999999999 there and 126000 here), which matters for a tab whose inactivity
  lies exactly on a threshold. With aggressive mode off the timer is returned as it is,
  in the code as here.
\<close>

definition calculateEffectiveSleepTimer :: "config \<Rightarrow> rat \<Rightarrow> jsnum \<Rightarrow> rat" where
  "calculateEffectiveSleepTimer c baseTimer usage =
     (if \<not> aggressiveMode c then baseTimer
      else if jsGt usage 85 then baseTimer * 0.2
      else if jsGt usage 80 then baseTimer * 0.3
      else if jsGt usage 75 then baseTimer * 0.5
      else if jsGt usage 70 then baseTimer * 0.6
      else if jsGt usage 65 then baseTimer * 0.7
      else if jsGt usage 60 then baseTimer * 0.8
      else if jsGt usage 55 then baseTimer * 0.9
      else baseTimer)"

text \<open>
  \<open>shouldTabSleep(tab, effectiveSleepTimer, usagePercent)\<close>, with the clock reading \<open>now\<close>.
  The timer is any number; doubling it is exact in the arithmetic of the code as well.
\<close>

definition shouldTabSleep :: "int \<Rightarrow> tab_info \<Rightarrow> rat \<Rightarrow> jsnum \<Rightarrow> bool" where
  "shouldTabSleep now t effectiveSleepTimer usage =
     (if of_int (inactiveTime t) < effectiveSleepTimer then False
      else
        (case metadata t of
           Some m \<Rightarrow>
             if now - createdAt m < 180000 then False
             else if 30 < activationCount m
               then effectiveSleepTimer * 2 < of_int (inactiveTime t)
             else if 15 < activationCount m
               then effectiveSleepTimer * 1.5 < of_int (inactiveTime t)
             else if jsGt usage 85 then True
             else 60 < sleepScore t
         | None \<Rightarrow>
             if jsGt usage 85 then True
             else 60 < sleepScore t))"

text \<open>
  \<open>.sort((a, b) => b.sleepScore - a.sleepScore)\<close>: the sort of the language is stable, so
  the result is in descending score order with equal scores in their order of arrival;
  the insertion sort of the library on the negated score is the same list.
\<close>

definition sortByScore :: "tab_info list \<Rightarrow> tab_info list" where
  "sortByScore ts = sort_key (\<lambda>t. - sleepScore t) ts"

text \<open>
  The share of the candidates to put to sleep, by memory status, and \<open>Math.ceil\<close> of the
  product with the number of candidates. The code multiplies in doubles; for the decimal
  factors used here and every list length a browser can hold, the ceiling of the double
  product is the ceiling of the exact product, which is what is written below.
\<close>

definition targetFraction :: "mem_status \<Rightarrow> rat" where
  "targetFraction st =
     (case st of Critical \<Rightarrow> 0.8 | Warning \<Rightarrow> 0.6 | Elevated \<Rightarrow> 0.4 | Optimal \<Rightarrow> 0.3)"

definition targetCount :: "mem_status \<Rightarrow> nat \<Rightarrow> nat" where
  "targetCount st n = nat (mathCeil (of_nat n * targetFraction st))"

text \<open>The candidates of the tiered pass, sorted: valid, and due by \<open>shouldTabSleep\<close>.\<close>

definition sleepCandidates :: "int \<Rightarrow> rat \<Rightarrow> jsnum \<Rightarrow> tab_info list \<Rightarrow> tab_info list" where
  "sleepCandidates now effectiveSleepTimer usage tabs =
     sortByScore
       (filter (\<lambda>t. shouldTabSleep now t effectiveSleepTimer usage)
          (filter isValidSleepCandidate tabs))"

text \<open>
  The host's \<open>chrome.tabs.discard\<close>. Whether a call resolves or throws is the host's
  business and may depend on what was asked before, so the host is a function of the
  requests made so far in the cycle and of the tab id: \<open>True\<close> when the call resolves.
  The loops count the calls that resolve and go on after one that throws; the log holds
  every tab id a discard was requested for, in order.
\<close>

type_synonym discard_host = "int list \<Rightarrow> int \<Rightarrow> bool"

fun discardEach :: "discard_host \<Rightarrow> int list \<Rightarrow> tab_info list \<Rightarrow> nat \<times> int list" where
  "discardEach host asked [] = (0, asked)"
| "discardEach host asked (t # ts) =
     (let (n, asked') = discardEach host (asked @ [tabId t]) ts
      in ((if host asked (tabId t) then Suc n else n), asked'))"

text \<open>
  \<open>emergencySleep(tabs, alreadySlept)\<close>: the tabs are the snapshot taken at the start of
  the cycle. \<open>emergencyPlan\<close> is the list of tabs its loop requests a discard for.
\<close>

definition emergencyCandidates :: "tab_info list \<Rightarrow> tab_info list" where
  "emergencyCandidates tabs =
     sortByScore
       (filter (\<lambda>t. \<not> isSleeping t \<and> \<not> isActive t \<and> \<not> audible t \<and> \<not> isSystemPage (url t))
          tabs)"

definition emergencyPlan :: "tab_info list \<Rightarrow> nat \<Rightarrow> tab_info list" where
  "emergencyPlan tabs alreadySlept =
     (let candidates = emergencyCandidates tabs;
          target = mathCeil (of_nat (length candidates) * 0.7);
          toSleep = max 0 (target - int alreadySlept)
      in take (nat toSleep) candidates)"

definition emergencySleep ::
  "discard_host \<Rightarrow> int list \<Rightarrow> tab_info list \<Rightarrow> nat \<Rightarrow> nat \<times> int list" where
  "emergencySleep host asked tabs alreadySlept =
     discardEach host asked (emergencyPlan tabs alreadySlept)"

text \<open>
  One cycle of \<open>checkAndSleepTabs\<close>, given what its two queries returned: the memory
  reading (\<open>None\<close> for \<open>null\<close>) and the tabs. The report keeps the returned counts, the
  list the tiered pass chose (\<open>toSleep\<close>), the list the emergency pass requested
  (\<open>None\<close> when that pass did not run) and the log of discard requests. The bookkeeping
  after a discard (metadata, history, statistics) does not feed back into the choices of
  the same cycle and is left out.
\<close>

record cycle_report =
  slept :: nat
  checked :: nat
  candidateCount :: nat
  tieredPlan :: "tab_info list"
  emergencyRequests :: "tab_info list option"
  discardLog :: "int list"

datatype cycle_result = NotRun string | Completed cycle_report

definition checkAndSleepTabs ::
  "config \<Rightarrow> discard_host \<Rightarrow> int \<Rightarrow> memory_reading option \<Rightarrow> tab_info list \<Rightarrow> cycle_result" where
  "checkAndSleepTabs c host now memoryInfo tabs =
     (if \<not> autoSleep c then NotRun ''Auto sleep disabled''
      else
        (case memoryInfo of
           None \<Rightarrow> NotRun ''No memory info''
         | Some mem \<Rightarrow>
             (let sleepTimerMs = max (sleepTimer c * 60 * 1000) (minInactiveTime c);
                  effectiveSleepTimer =
                    calculateEffectiveSleepTimer c sleepTimerMs (usagePercent mem);
                  candidates = sleepCandidates now effectiveSleepTimer (usagePercent mem) tabs;
                  toSleep = take (targetCount (status mem) (length candidates)) candidates;
                  (sleptCount, asked) = discardEach host [] toSleep
              in if aggressiveMode c \<and> status mem = Critical
                 then (let (emergencyCount, asked') = emergencySleep host asked tabs sleptCount
                       in Completed
                            \<lparr> slept = sleptCount + emergencyCount, checked = length tabs,
                              candidateCount = length candidates, tieredPlan = toSleep,
                              emergencyRequests = Some (emergencyPlan tabs sleptCount),
                              discardLog = asked' \<rparr>)
                 else Completed
                        \<lparr> slept = sleptCount, checked = length tabs,
                          candidateCount = length candidates, tieredPlan = toSleep,
                          emergencyRequests = None, discardLog = asked \<rparr>)))"

section \<open>The selection loop of the background script (checkAndSleepTabsWithML)\<close>

text \<open>\<open>x > y\<close> for a finite left operand.\<close>

fun numGt :: "rat \<Rightarrow> jsnum \<Rightarrow> bool" where
  "numGt r (Num a) = (a < r)"
| "numGt r PosInf = False"
| "numGt r NegInf = True"
| "numGt r NaN = False"

text \<open>
  The loop of \<open>background.js\<close> that fills \<open>tabsToSleep\<close>. It consults the manager before
  anything else is computed for the tab. \<open>optimalTime\<close> is the number the worker manager
  returned for a tab.
\<close>

fun tabsToSleepWithML ::
  "url_reader \<Rightarrow> whitelist_manager \<Rightarrow> (tab_info \<Rightarrow> jsnum) \<Rightarrow> tab_info list \<Rightarrow> tab_info list" where
  "tabsToSleepWithML hostnameOf m optimalTime [] = []"
| "tabsToSleepWithML hostnameOf m optimalTime (t # ts) =
     (let rest = tabsToSleepWithML hostnameOf m optimalTime ts
      in if isActive t \<or> isSleeping t \<or> audible t then rest
         else if startsWith (url t) ''chrome://'' \<or> startsWith (url t) ''chrome-extension://''
           then rest
         else if getSleepPriority hostnameOf m (url t) = 0 then rest
         else if getSleepPriority hostnameOf m (url t) = 2 then t # rest
         else if numGt (of_int (inactiveTime t)) (optimalTime t) then t # rest
         else rest)"

section \<open>Data of the worked scenarios\<close>

text \<open>A background tab with no metadata, idle for \<open>inactiveT\<close> milliseconds at time \<open>now\<close>.\<close>

definition idleTab :: "int \<Rightarrow> int \<Rightarrow> string \<Rightarrow> int \<Rightarrow> int \<Rightarrow> tab_info" where
  "idleTab now i u inactiveT score =
     \<lparr> tabId = i, url = u, isActive = False, isSleeping = False, audible = False,
       lastActivity = now - inactiveT, inactiveTime = inactiveT, metadata = None,
       sleepScore = score \<rparr>"

text \<open>10 GiB of memory with 1 GiB available (90 percent used), and 16 GiB with 8 GiB available.\<close>

definition criticalReading :: memory_reading where
  "criticalReading = newReading defaultConfig 100000000 10737418240 1073741824"

definition optimalReading :: memory_reading where
  "optimalReading = newReading defaultConfig 100000000 17179869184 8589934592"

definition engineOn :: config where
  "engineOn = defaultConfig\<lparr>autoSleep := True\<rparr>"

definition engineAggressive :: config where
  "engineAggressive = defaultConfig\<lparr>autoSleep := True, aggressiveMode := True\<rparr>"

text \<open>A host on which every discard call resolves.\<close>

definition alwaysResolves :: discard_host where
  "alwaysResolves asked i = True"

text \<open>Ten tabs idle for two hours, with the scores 90, 85, ..., 45.\<close>

definition scenarioATabs :: "tab_info list" where
  "scenarioATabs =
     map (\<lambda>(i, score). idleTab 100000000 i ''https://example.com/page'' 7200000 score)
       [(1, 90), (2, 85), (3, 80), (4, 75), (5, 70), (6, 65), (7, 60), (8, 55), (9, 50),
        (10, 45)]"

text \<open>Three tabs, of which only the first has been idle for longer than the sleep timer.\<close>

definition scenarioTopUpTabs :: "tab_info list" where
  "scenarioTopUpTabs =
     [idleTab 100000000 1 ''https://a.example/'' 7200000 90,
      idleTab 100000000 2 ''https://b.example/'' 1000 80,
      idleTab 100000000 3 ''https://c.example/'' 1000 70]"

text \<open>
  Two tabs as the host reports them: a mail tab last used two hours ago and the active
  tab; and a manager whose whitelist holds the mail host.
\<close>

definition scenarioHostTabs :: "host_tab list" where
  "scenarioHostTabs =
     [\<lparr> hostId = 1, hostUrl = ''https://mail.example.com/inbox'', hostAudible = False,
        discarded = False \<rparr>,
      \<lparr> hostId = 2, hostUrl = ''https://example.org/'', hostAudible = False,
        discarded = False \<rparr>]"

definition scenarioTabsInfo :: "tab_info list" where
  "scenarioTabsInfo =
     getTabsInfo simpleHostname 100000000 (Some 2) [1 \<mapsto> 92800000, 2 \<mapsto> 99999000] Map.empty
       scenarioHostTabs"

definition mailWhitelisted :: whitelist_manager where
  "mailWhitelisted =
     (case addToWhitelist ''mail.example.com'' newManager of
        Some (ok, m) \<Rightarrow> m
      | None \<Rightarrow> newManager)"

text \<open>
  A manager whose deny-set holds the mail host, the same after \<open>*.example.com\<close> has been
  added to its allow-set, and a manager with \<open>*\<close> in both sets.
\<close>

definition mailDenied :: whitelist_manager where
  "mailDenied =
     (case addToBlacklist ''mail.example.com'' newManager of
        Some (ok, m) \<Rightarrow> m
      | None \<Rightarrow> newManager)"

definition mailDeniedAndAllowed :: whitelist_manager where
  "mailDeniedAndAllowed =
     (case addToWhitelist ''*.example.com'' mailDenied of
        Some (ok, m) \<Rightarrow> m
      | None \<Rightarrow> mailDenied)"

definition starInBothLists :: whitelist_manager where
  "starInBothLists =
     (case addToWhitelist ''*'' newManager of
        Some (ok, m) \<Rightarrow>
          (case addToBlacklist ''*'' m of
             Some (ok2, m2) \<Rightarrow> m2
           | None \<Rightarrow> m)
      | None \<Rightarrow> newManager)"

section \<open>Properties\<close>

subsection \<open>Memory status\<close>

lemma jsGt_mono: "jsGe y x \<Longrightarrow> jsGt x r \<Longrightarrow> jsGt y r"
  by (cases x; cases y) auto

lemma memoryStatus_mono:
  "jsGe y x \<Longrightarrow> severity (memoryStatus c x) \<le> severity (memoryStatus c y)"
  unfolding memoryStatus_def by (auto dest: jsGt_mono)

lemma newReading_status:
  "status (newReading c now cap av) = memoryStatus c (usagePercent (newReading c now cap av))"
  by (simp add: newReading_def Let_def)

text \<open>
  C8. Two readings taken under the same thresholds: when the usage percentage of the
  second is greater than or equal to that of the first, its status is at least as severe,
  in the order optimal, elevated, warning, critical. The thresholds are those of any
  configuration, the defaults 60/70/85 among them.
\<close>

theorem status_monotone_in_usage:
  assumes "jsGe (usagePercent (newReading c n2 cap2 av2)) (usagePercent (newReading c n1 cap1 av1))"
  shows "severity (status (newReading c n1 cap1 av1))
           \<le> severity (status (newReading c n2 cap2 av2))"
  using assms by (simp only: newReading_status memoryStatus_mono)

theorem status_monotone_in_usage_witness:
  "jsGe (usagePercent (newReading defaultConfig 2000 17179869184 1073741824))
        (usagePercent (newReading defaultConfig 1000 17179869184 8589934592))
   \<and> status (newReading defaultConfig 1000 17179869184 8589934592) = Optimal
   \<and> status (newReading defaultConfig 2000 17179869184 1073741824) = Critical
   \<and> severity (status (newReading defaultConfig 1000 17179869184 8589934592))
         \<le> severity (status (newReading defaultConfig 2000 17179869184 1073741824))"
proof -
  have h: "jsGe (usagePercent (newReading defaultConfig 2000 17179869184 1073741824))
        (usagePercent (newReading defaultConfig 1000 17179869184 8589934592))"
    by code_simp
  have s1: "status (newReading defaultConfig 1000 17179869184 8589934592) = Optimal"
    by code_simp
  have s2: "status (newReading defaultConfig 2000 17179869184 1073741824) = Critical"
    by code_simp
  from h s1 s2 status_monotone_in_usage [OF h] show ?thesis by blast
qed

subsection \<open>The sampler when the memory source fails\<close>

lemma cacheFresh_empty: "memoryCache s = None \<Longrightarrow> \<not> cacheFresh now s"
  by (simp add: cacheFresh_def)

text \<open>A cycle that gets no reading stops there, with the reason recorded.\<close>

lemma no_memory_info_skips_cycle:
  "autoSleep c \<Longrightarrow> checkAndSleepTabs c host now None tabs = NotRun ''No memory info''"
  by (simp add: checkAndSleepTabs_def)

text \<open>
  C7. The memory source throws (\<open>src = None\<close>). With an empty cache the sampler returns
  no reading at all (the \<open>null\<close> its caller tests for), so no reading with status optimal
  is made up, and the sampler is unchanged. With a cached reading that is no longer fresh,
  so that the source was asked, the result is that reading with \<open>stale\<close> set, every other
  field as cached, and the cache itself is left as it was. So a failure that follows a
  successful sample by at least the cache age returns that sample, marked stale.
\<close>

theorem sampler_failure_fallback:
  "(memoryCache s = None \<longrightarrow> getMemoryInfo now None s = (None, s))
   \<and> (\<forall>r. memoryCache s = Some r \<and> \<not> cacheFresh now s \<longrightarrow>
          getMemoryInfo now None s = (Some (r\<lparr>stale := True\<rparr>), s))
   \<and> (\<not> cacheFresh now s \<and> maxCacheAge (samplerConfig s) \<le> of_int (later - now) \<longrightarrow>
          fst (getMemoryInfo later None (snd (getMemoryInfo now (Some (cap, av)) s)))
            = Some ((newReading (samplerConfig s) now cap av)\<lparr>stale := True\<rparr>))"
proof (intro conjI impI allI)
  assume "memoryCache s = None"
  then show "getMemoryInfo now None s = (None, s)"
    by (simp add: getMemoryInfo_def cacheFresh_empty)
next
  fix r
  assume "memoryCache s = Some r \<and> \<not> cacheFresh now s"
  then show "getMemoryInfo now None s = (Some (r\<lparr>stale := True\<rparr>), s)"
    by (simp add: getMemoryInfo_def)
next
  assume a: "\<not> cacheFresh now s \<and> maxCacheAge (samplerConfig s) \<le> of_int (later - now)"
  let ?r = "newReading (samplerConfig s) now cap av"
  let ?s = "s\<lparr>memoryCache := Some ?r, memoryCacheTime := now\<rparr>"
  from a have 1: "getMemoryInfo now (Some (cap, av)) s = (Some ?r, ?s)"
    by (simp add: getMemoryInfo_def Let_def)
  from a have 2: "\<not> cacheFresh later ?s"
    by (simp add: cacheFresh_def)
  have "getMemoryInfo later None ?s = (Some (?r\<lparr>stale := True\<rparr>), ?s)"
    using 2 by (simp add: getMemoryInfo_def)
  with 1 show "fst (getMemoryInfo later None (snd (getMemoryInfo now (Some (cap, av)) s)))
            = Some (?r\<lparr>stale := True\<rparr>)"
    by simp
qed

theorem sampler_failure_fallback_witness:
  "getMemoryInfo 1000 None newSampler = (None, newSampler)
   \<and> memoryCache (snd (getMemoryInfo 1000 (Some (17179869184, 8589934592)) newSampler))
       = Some (newReading defaultConfig 1000 17179869184 8589934592)
   \<and> getMemoryInfo 5000 None
        (snd (getMemoryInfo 1000 (Some (17179869184, 8589934592)) newSampler))
       = (Some ((newReading defaultConfig 1000 17179869184 8589934592)\<lparr>stale := True\<rparr>),
          snd (getMemoryInfo 1000 (Some (17179869184, 8589934592)) newSampler))
   \<and> fst (getMemoryInfo 5000 None
            (snd (getMemoryInfo 1000 (Some (17179869184, 8589934592)) newSampler)))
       = Some ((newReading (samplerConfig newSampler) 1000 17179869184 8589934592)
                 \<lparr>stale := True\<rparr>)"
proof -
  let ?s = "snd (getMemoryInfo 1000 (Some (17179869184, 8589934592)) newSampler)"
  let ?r = "newReading defaultConfig 1000 17179869184 8589934592"
  have e: "memoryCache newSampler = None" by (simp add: newSampler_def)
  have n: "\<not> cacheFresh 1000 newSampler" by (simp add: newSampler_def cacheFresh_def)
  have g: "maxCacheAge (samplerConfig newSampler) \<le> of_int (5000 - 1000)"
    by (simp add: newSampler_def defaultConfig_def)
  have c: "memoryCache ?s = Some ?r"
    by (simp add: getMemoryInfo_def cacheFresh_def newSampler_def Let_def)
  have f: "\<not> cacheFresh 5000 ?s"
    by (simp add: getMemoryInfo_def cacheFresh_def newSampler_def defaultConfig_def Let_def)
  from sampler_failure_fallback
         [where s = newSampler and now = 1000 and later = 5000 and cap = 17179869184
            and av = 8589934592] e n g
  have 1: "getMemoryInfo 1000 None newSampler = (None, newSampler)"
    and 3: "fst (getMemoryInfo 5000 None ?s)
             = Some ((newReading (samplerConfig newSampler) 1000 17179869184 8589934592)
                 \<lparr>stale := True\<rparr>)"
    by blast+
  from sampler_failure_fallback [where s = ?s and now = 5000] c f
  have 2: "getMemoryInfo 5000 None ?s = (Some (?r\<lparr>stale := True\<rparr>), ?s)" by blast
  from 1 c 2 3 show ?thesis by blast
qed

subsection \<open>Range validation in updateConfig\<close>

text \<open>What \<open>updateConfig\<close> stores as the memory limit, for every update and configuration.\<close>

lemma updateConfig_ramLimit:
  "ramLimit (updateConfig u c) =
     (case newRamLimit u of None \<Rightarrow> ramLimit c
      | Some v \<Rightarrow> if v = 0 then 0 else max 1000 (min 5000 v))"
  by (simp add: updateConfig_def validateRanges_def assignConfig_def Let_def clampTo_def
      split: option.splits)

lemma updateConfig_sleepTimer:
  "sleepTimer (updateConfig u c) =
     (case newSleepTimer u of None \<Rightarrow> sleepTimer c
      | Some v \<Rightarrow> if v = 0 then 0 else max 1 (min 60 v))"
  by (simp add: updateConfig_def validateRanges_def assignConfig_def Let_def clampTo_def
      split: option.splits)

text \<open>A present, non-zero memory limit is stored clamped into 1000..5000.\<close>

lemma updateConfig_clamps_nonzero:
  assumes "newRamLimit u = Some v" and "v \<noteq> 0"
  shows "1000 \<le> ramLimit (updateConfig u c) \<and> ramLimit (updateConfig u c) \<le> 5000"
  using assms by (simp add: updateConfig_ramLimit)

text \<open>
  C9. The claim is that an out-of-range memory limit is clamped into 1000..5000, so that
  the stored limit lies in that range after every call. The settings object
  \<open>{ramLimit: 0}\<close> is out of range and is stored as it is: the guard of the clamp tests the
  value for truthiness, zero is falsy, and the merge still copies the key.
\<close>

theorem updateConfig_zero_limit_stored:
  "ramLimit (updateConfig (noUpdate\<lparr>newRamLimit := Some 0\<rparr>) defaultConfig) = 0"
  by (simp add: updateConfig_ramLimit noUpdate_def)

subsection \<open>Policy queries\<close>

lemma isWhitelisted_match:
  assumes "hostnameOf u = Some d"
    and "d \<in> set (whitelist m) \<or> (\<exists>p \<in> set (whitelistPatterns m). rxTest p d)"
  shows "isWhitelisted hostnameOf m u"
  using assms by (auto simp: isWhitelisted_def list_ex_iff)

lemma whitelisted_never:
  "isWhitelisted hostnameOf m u \<Longrightarrow>
     getSleepPriority hostnameOf m u = 0 \<and> canSleep hostnameOf m u = Some False"
  by (simp add: getSleepPriority_def canSleep_def)

lemma normalize_star_example: "normalizeDomain ''*.example.com'' = Some ''*.example.com''"
  by code_simp

lemma star_example_plain: "plainEntry ''*.example.com''"
  by code_simp

lemma star_example_matches: "rxTest (translateEntry ''*.example.com'') ''mail.example.com''"
  by code_simp

text \<open>On a list of plain entries the compilation goes through, one pattern per entry.\<close>

lemma compilePatterns_plain:
  "list_all plainEntry ds \<Longrightarrow> compilePatterns ds = Some (map translateEntry ds)"
  by (induction ds) (simp_all add: compileDomain_def)

text \<open>It stops exactly when some entry is not plain.\<close>

lemma compilePatterns_None: "compilePatterns ds = None \<longleftrightarrow> \<not> list_all plainEntry ds"
  by (induction ds) (auto simp: compileDomain_def split: option.splits)

lemma setAdd_plain: "plainEntry d \<Longrightarrow> list_all plainEntry ds \<Longrightarrow> list_all plainEntry (setAdd d ds)"
  by (simp add: setAdd_def)

lemma setAdd_member: "d \<in> set (setAdd d ds)"
  by (simp add: setAdd_def)

text \<open>
  The bracket that \<open>normalizeDomain\<close> leaves of \<open>[::1]\<close> is not plain, and with it in the
  allow-set no later entry is compiled either.
\<close>

lemma bracket_entry_not_compiled:
  "normalizeDomain ''[::1]'' = Some ''[''
   \<and> addToWhitelist ''[::1]'' newManager = None
   \<and> addToWhitelist ''*.example.com'' (newManager\<lparr>whitelist := [''['']\<rparr>) = None"
  by code_simp

lemma addToWhitelist_star_example:
  assumes "list_all plainEntry (whitelist m0)"
  shows "\<exists>m1. addToWhitelist ''*.example.com'' m0 = Some (True, m1)
           \<and> translateEntry ''*.example.com'' \<in> set (whitelistPatterns m1)
           \<and> blacklist m1 = blacklist m0 \<and> blacklistPatterns m1 = blacklistPatterns m0"
proof -
  let ?entries = "setAdd ''*.example.com'' (whitelist m0)"
  have "list_all plainEntry ?entries"
    using assms star_example_plain by (simp add: setAdd_plain)
  then have c: "compilePatterns ?entries = Some (map translateEntry ?entries)"
    by (rule compilePatterns_plain)
  have "translateEntry ''*.example.com'' \<in> set (map translateEntry ?entries)"
    using setAdd_member [of "''*.example.com''" "whitelist m0"] by simp
  with c show ?thesis
    by (simp add: addToWhitelist_def normalize_star_example Let_def)
qed

text \<open>
  C6. A URL whose host name is an entry of the allow-set, or is matched by one of its
  compiled patterns, is classified never-suspend (priority 0, \<open>canSleep\<close> false), whatever
  the deny-set holds. In particular, adding \<open>*.example.com\<close> to the allow-set of a manager
  whose allow-set holds plain entries succeeds, and \<open>https://mail.example.com/inbox\<close> is
  then classified never-suspend, whatever the deny-set of that manager holds and for every
  URL reader that gives this URL the host name \<open>mail.example.com\<close>.
\<close>

theorem allow_match_classifies_never:
  "(hostnameOf u = Some d
      \<and> (d \<in> set (whitelist m) \<or> (\<exists>p \<in> set (whitelistPatterns m). rxTest p d))
      \<longrightarrow> getSleepPriority hostnameOf m u = 0 \<and> canSleep hostnameOf m u = Some False)
   \<and> (hostnameOf ''https://mail.example.com/inbox'' = Some ''mail.example.com''
        \<and> list_all plainEntry (whitelist m0)
      \<longrightarrow> (\<exists>m1. addToWhitelist ''*.example.com'' m0 = Some (True, m1)
             \<and> blacklist m1 = blacklist m0 \<and> blacklistPatterns m1 = blacklistPatterns m0
             \<and> getSleepPriority hostnameOf m1 ''https://mail.example.com/inbox'' = 0
             \<and> canSleep hostnameOf m1 ''https://mail.example.com/inbox'' = Some False))"
proof (intro conjI impI)
  assume a: "hostnameOf u = Some d
      \<and> (d \<in> set (whitelist m) \<or> (\<exists>p \<in> set (whitelistPatterns m). rxTest p d))"
  then have "isWhitelisted hostnameOf m u"
    using isWhitelisted_match by blast
  then show "getSleepPriority hostnameOf m u = 0" and "canSleep hostnameOf m u = Some False"
    using whitelisted_never by blast+
next
  assume h: "hostnameOf ''https://mail.example.com/inbox'' = Some ''mail.example.com''
        \<and> list_all plainEntry (whitelist m0)"
  then obtain m1 where m1: "addToWhitelist ''*.example.com'' m0 = Some (True, m1)"
    and p: "translateEntry ''*.example.com'' \<in> set (whitelistPatterns m1)"
    and b: "blacklist m1 = blacklist m0" "blacklistPatterns m1 = blacklistPatterns m0"
    using addToWhitelist_star_example [of m0] by blast
  have "\<exists>p \<in> set (whitelistPatterns m1). rxTest p ''mail.example.com''"
    using p star_example_matches by blast
  with h have "isWhitelisted hostnameOf m1 ''https://mail.example.com/inbox''"
    using isWhitelisted_match by blast
  then have "getSleepPriority hostnameOf m1 ''https://mail.example.com/inbox'' = 0
      \<and> canSleep hostnameOf m1 ''https://mail.example.com/inbox'' = Some False"
    by (rule whitelisted_never)
  with m1 b show "\<exists>m1. addToWhitelist ''*.example.com'' m0 = Some (True, m1)
             \<and> blacklist m1 = blacklist m0 \<and> blacklistPatterns m1 = blacklistPatterns m0
             \<and> getSleepPriority hostnameOf m1 ''https://mail.example.com/inbox'' = 0
             \<and> canSleep hostnameOf m1 ''https://mail.example.com/inbox'' = Some False"
    by blast
qed

theorem allow_match_classifies_never_witness:
  "simpleHostname ''https://mail.example.com/inbox'' = Some ''mail.example.com''
   \<and> addToBlacklist ''mail.example.com'' newManager = Some (True, mailDenied)
   \<and> list_all plainEntry (whitelist mailDenied)
   \<and> addToWhitelist ''*.example.com'' mailDenied = Some (True, mailDeniedAndAllowed)
   \<and> isBlacklisted simpleHostname mailDeniedAndAllowed ''https://mail.example.com/inbox''
   \<and> getSleepPriority simpleHostname mailDeniedAndAllowed ''https://mail.example.com/inbox'' = 0
   \<and> canSleep simpleHostname mailDeniedAndAllowed ''https://mail.example.com/inbox''
       = Some False"
proof -
  let ?u = "''https://mail.example.com/inbox''"
  have h: "simpleHostname ?u = Some ''mail.example.com''" by code_simp
  have d: "addToBlacklist ''mail.example.com'' newManager = Some (True, mailDenied)"
    by code_simp
  have q: "list_all plainEntry (whitelist mailDenied)" by code_simp
  have b: "isBlacklisted simpleHostname mailDeniedAndAllowed ?u" by code_simp
  have p: "\<exists>p \<in> set (whitelistPatterns mailDeniedAndAllowed). rxTest p ''mail.example.com''"
    by code_simp
  note t = allow_match_classifies_never
             [of simpleHostname ?u "''mail.example.com''" mailDeniedAndAllowed mailDenied]
  from t h p have 1: "getSleepPriority simpleHostname mailDeniedAndAllowed ?u = 0
      \<and> canSleep simpleHostname mailDeniedAndAllowed ?u = Some False"
    by blast
  from t h q obtain m1 where m1: "addToWhitelist ''*.example.com'' mailDenied = Some (True, m1)"
    by blast
  then have 2: "addToWhitelist ''*.example.com'' mailDenied = Some (True, mailDeniedAndAllowed)"
    by (simp add: mailDeniedAndAllowed_def)
  from h d q 2 b 1 show ?thesis by blast
qed

text \<open>
  C10. The three queries are total functions with no error result: the one operation that
  can throw, the URL constructor, is caught. For a string the constructor rejects, both
  membership tests answer false, \<open>canSleep\<close> answers \<open>null\<close> (the default rules) and the
  priority is 1 (normal), whatever the two lists hold.
\<close>

theorem malformed_url_is_normal:
  assumes "hostnameOf u = None"
  shows "\<not> isWhitelisted hostnameOf m u \<and> \<not> isBlacklisted hostnameOf m u
         \<and> canSleep hostnameOf m u = None \<and> getSleepPriority hostnameOf m u = 1"
  using assms
  by (simp add: isWhitelisted_def isBlacklisted_def canSleep_def getSleepPriority_def)

theorem malformed_url_is_normal_witness:
  "simpleHostname ''not a url'' = None
   \<and> whitelist starInBothLists = [''*''] \<and> blacklist starInBothLists = [''*'']
   \<and> getSleepPriority simpleHostname starInBothLists ''https://a.example/'' = 0
   \<and> \<not> isWhitelisted simpleHostname starInBothLists ''not a url''
   \<and> \<not> isBlacklisted simpleHostname starInBothLists ''not a url''
   \<and> canSleep simpleHostname starInBothLists ''not a url'' = None
   \<and> getSleepPriority simpleHostname starInBothLists ''not a url'' = 1"
proof -
  have h: "simpleHostname ''not a url'' = None" by code_simp
  have w: "whitelist starInBothLists = [''*'']" by code_simp
  have b: "blacklist starInBothLists = [''*'']" by code_simp
  have a: "getSleepPriority simpleHostname starInBothLists ''https://a.example/'' = 0"
    by code_simp
  from h w b a malformed_url_is_normal [of simpleHostname "''not a url''" starInBothLists]
  show ?thesis by blast
qed

subsection \<open>The sleep score\<close>

text \<open>
  C2, as the claim states it, fails for an audible tab: the short cut of the score tests
  the active and the sleeping flag only. An audible background tab on a plain site, just
  used, scores the base 50.
\<close>

theorem audible_tab_scores_nonzero:
  "hostAudible \<lparr> hostId = 1, hostUrl = ''https://example.com/'', hostAudible = True,
       discarded = False \<rparr>
   \<and> calculateSleepScore simpleHostname 0
     \<lparr> hostId = 1, hostUrl = ''https://example.com/'', hostAudible = True,
       discarded = False \<rparr> 0 None False False = 50"
  by code_simp

text \<open>
  C2, amended. For a tab that is active or already asleep the score is exactly 0, whatever
  its inactivity, metadata and URL; for every tab, audible ones included, the score is an
  integer between 0 and 100. An audible tab is kept out of the selection by
  \<open>isValidSleepCandidate\<close>, not by its score.
\<close>

theorem sleep_score_range:
  "(active \<or> sleeping \<longrightarrow>
      calculateSleepScore hostnameOf now tab inactiveT md active sleeping = 0)
   \<and> 0 \<le> calculateSleepScore hostnameOf now tab inactiveT md active sleeping
   \<and> calculateSleepScore hostnameOf now tab inactiveT md active sleeping \<le> 100"
  by (simp add: calculateSleepScore_def Let_def)

theorem sleep_score_range_witness:
  "calculateSleepScore simpleHostname 7200000
     \<lparr> hostId = 1, hostUrl = ''https://www.youtube.com/watch'', hostAudible = False,
       discarded = False \<rparr> 7200000 None True False = 0
   \<and> calculateSleepScore simpleHostname 7200000
     \<lparr> hostId = 1, hostUrl = ''https://www.youtube.com/watch'', hostAudible = False,
       discarded = False \<rparr> 7200000 None False False = 90"
proof -
  let ?t = "\<lparr> hostId = 1, hostUrl = ''https://www.youtube.com/watch'', hostAudible = False,
       discarded = False \<rparr>"
  have a: "True \<or> False" by simp
  have b: "calculateSleepScore simpleHostname 7200000 ?t 7200000 None False False = 90"
    by code_simp
  from sleep_score_range [of True False simpleHostname 7200000 ?t 7200000 None] a b
  show ?thesis by blast
qed

lemma audible_not_candidate: "audible t \<Longrightarrow> \<not> isValidSleepCandidate t"
  by (simp add: isValidSleepCandidate_def)

subsection \<open>Frequently activated tabs\<close>

text \<open>
  C5, as the claim states it, fails at the boundary: with the default configuration (a
  10-minute timer, aggressive mode off) the effective threshold is 600000 ms, and a tab
  with 35 activations that has been idle for exactly 1200000 ms is not due.
\<close>

theorem frequent_tab_at_twice_threshold_not_eligible:
  "calculateEffectiveSleepTimer defaultConfig
     (max (sleepTimer defaultConfig * 60 * 1000) (minInactiveTime defaultConfig)) (Num 50)
     = 600000
   \<and> \<not> shouldTabSleep 100000000
     \<lparr> tabId = 1, url = ''https://example.com/'', isActive = False, isSleeping = False,
       audible = False, lastActivity = 98800000, inactiveTime = 1200000,
       metadata = Some \<lparr> createdAt = 0, activationCount = 35, totalActiveTime = 0,
                         lastSleepTime = None, sleepCount = 0 \<rparr>,
       sleepScore = 100 \<rparr>
     (calculateEffectiveSleepTimer defaultConfig
        (max (sleepTimer defaultConfig * 60 * 1000) (minInactiveTime defaultConfig)) (Num 50))
     (Num 50)"
  by (simp add: calculateEffectiveSleepTimer_def defaultConfig_def shouldTabSleep_def)

text \<open>
  C5, amended. A tab whose metadata records more than 30 activations is due exactly when
  its inactivity has reached the effective threshold, its creation lies at least three
  minutes back, and its inactivity is strictly greater than twice the effective threshold.
  The comparison with the doubled threshold is strict, so the tab above becomes due one
  millisecond later.
\<close>

theorem frequent_tab_needs_more_than_twice:
  assumes "metadata t = Some m" and "30 < activationCount m"
  shows "shouldTabSleep now t eff usage \<longleftrightarrow>
           (eff \<le> of_int (inactiveTime t) \<and> 180000 \<le> now - createdAt m
            \<and> eff * 2 < of_int (inactiveTime t))"
  using assms by (auto simp: shouldTabSleep_def)

theorem frequent_tab_needs_more_than_twice_witness:
  "shouldTabSleep 100000000
     \<lparr> tabId = 1, url = ''https://example.com/'', isActive = False, isSleeping = False,
       audible = False, lastActivity = 98799999, inactiveTime = 1200001,
       metadata = Some \<lparr> createdAt = 0, activationCount = 35, totalActiveTime = 0,
                         lastSleepTime = None, sleepCount = 0 \<rparr>,
       sleepScore = 35 \<rparr>
     600000 (Num 50)"
proof -
  let ?m = "\<lparr> createdAt = 0, activationCount = 35, totalActiveTime = 0,
             lastSleepTime = None, sleepCount = 0 \<rparr>"
  let ?t = "\<lparr> tabId = 1, url = ''https://example.com/'', isActive = False,
             isSleeping = False, audible = False, lastActivity = 98799999,
             inactiveTime = 1200001, metadata = Some ?m, sleepScore = 35 \<rparr>"
  have a: "metadata ?t = Some ?m" by simp
  have b: "30 < activationCount ?m" by simp
  from frequent_tab_needs_more_than_twice [OF a b, of 100000000 600000 "Num 50"]
  show ?thesis by simp
qed

subsection \<open>The tiered pass\<close>

lemma targetFraction_bounds: "0 \<le> targetFraction st \<and> targetFraction st \<le> 1"
  by (cases st) (simp_all add: targetFraction_def)

lemma targetCount_le: "targetCount st n \<le> n"
proof -
  have "of_nat n * targetFraction st \<le> (of_nat n :: rat)"
    using targetFraction_bounds [of st] by (simp add: mult_left_le)
  then have "\<lceil>of_nat n * targetFraction st\<rceil> \<le> \<lceil>(of_nat n :: rat)\<rceil>"
    by (rule ceiling_mono)
  then show ?thesis
    by (simp add: targetCount_def mathCeil_def)
qed

lemma targetCount_ceiling:
  "int (targetCount st n) =
     \<lceil>rat_of_nat n * (case st of Critical \<Rightarrow> 8 / 10 | Warning \<Rightarrow> 6 / 10
                        | Elevated \<Rightarrow> 4 / 10 | Optimal \<Rightarrow> 3 / 10)\<rceil>"
proof -
  have "0 \<le> of_nat n * targetFraction st"
    using targetFraction_bounds [of st] by simp
  then have "0 \<le> \<lceil>of_nat n * targetFraction st\<rceil>"
    by (simp add: ceiling_le_iff[symmetric] order_trans [OF _ le_of_int_ceiling])
  then show ?thesis
    by (cases st) (simp_all add: targetCount_def mathCeil_def targetFraction_def)
qed

lemma sortByScore_mset: "mset (sortByScore ts) = mset ts"
  by (simp add: sortByScore_def)

lemma sortByScore_descending:
  "sorted_wrt (\<lambda>a b. sleepScore b \<le> sleepScore a) (sortByScore ts)"
proof -
  have "sorted (map (\<lambda>t. - sleepScore t) (sortByScore ts))"
    by (simp add: sortByScore_def)
  then show ?thesis
    by (simp add: sorted_map)
qed

text \<open>Tabs of equal score keep their order of arrival.\<close>

lemma sortByScore_stable:
  "filter (\<lambda>t. sleepScore t = k) (sortByScore ts) = filter (\<lambda>t. sleepScore t = k) ts"
  using sort_key_stable [of "\<lambda>t. - sleepScore t" "- k" ts]
  by (simp add: sortByScore_def)

lemma sleepCandidates_mset:
  "mset (sleepCandidates now eff usage tabs) =
     mset (filter (\<lambda>t. isValidSleepCandidate t \<and> shouldTabSleep now t eff usage) tabs)"
  by (simp add: sleepCandidates_def sortByScore_mset conj_commute)

lemma descending_take_drop:
  assumes "sorted_wrt (\<lambda>a b. sleepScore b \<le> sleepScore a) xs"
  shows "\<forall>x \<in> set (take k xs). \<forall>y \<in> set (drop k xs). sleepScore y \<le> sleepScore x"
proof -
  have "sorted_wrt (\<lambda>a b. sleepScore b \<le> sleepScore a) (take k xs @ drop k xs)"
    using assms by simp
  then show ?thesis
    unfolding sorted_wrt_append by blast
qed

text \<open>
  With automatic sleep on and a memory reading at hand the cycle completes; its tiered
  choice is a prefix of the sorted candidates, and the emergency pass runs exactly in
  aggressive mode at critical status.
\<close>

lemma checkAndSleepTabs_tiered:
  assumes "autoSleep c"
  shows "\<exists>r. checkAndSleepTabs c host now (Some mem) tabs = Completed r
     \<and> tieredPlan r =
         take (targetCount (status mem)
                 (length (sleepCandidates now
                    (calculateEffectiveSleepTimer c
                       (max (sleepTimer c * 60 * 1000) (minInactiveTime c)) (usagePercent mem))
                    (usagePercent mem) tabs)))
           (sleepCandidates now
              (calculateEffectiveSleepTimer c
                 (max (sleepTimer c * 60 * 1000) (minInactiveTime c)) (usagePercent mem))
              (usagePercent mem) tabs)
     \<and> (emergencyRequests r \<noteq> None \<longleftrightarrow> aggressiveMode c \<and> status mem = Critical)"
  using assms
  by (simp add: checkAndSleepTabs_def Let_def split: prod.splits)

text \<open>
  C4. In a cycle that runs (automatic sleep on, a memory reading at hand), let the
  candidates be the valid tabs that are due, sorted by score in descending order. The
  tiered pass chooses exactly the first \<open>k\<close> of them, where \<open>k\<close> is the ceiling of the
  number of candidates times 0.8 at critical status, 0.6 at warning, 0.4 at elevated and
  0.3 at optimal: the choice has length \<open>k\<close>, the candidates are a permutation of the
  valid due tabs in descending score order, and no tab left out scores higher than a
  chosen one. With 10 candidates at critical status the choice has 8 tabs.
\<close>

theorem tiered_pass_selects_top_share:
  assumes "autoSleep c"
    and "eff = calculateEffectiveSleepTimer c
                 (max (sleepTimer c * 60 * 1000) (minInactiveTime c)) (usagePercent mem)"
    and "cands = sleepCandidates now eff (usagePercent mem) tabs"
    and "k = nat \<lceil>rat_of_nat (length cands) *
                  (case status mem of Critical \<Rightarrow> 8 / 10 | Warning \<Rightarrow> 6 / 10
                   | Elevated \<Rightarrow> 4 / 10 | Optimal \<Rightarrow> 3 / 10)\<rceil>"
  shows "\<exists>r. checkAndSleepTabs c host now (Some mem) tabs = Completed r
     \<and> tieredPlan r = take k cands
     \<and> length (tieredPlan r) = k
     \<and> mset cands =
         mset (filter (\<lambda>t. isValidSleepCandidate t
                 \<and> shouldTabSleep now t eff (usagePercent mem)) tabs)
     \<and> sorted_wrt (\<lambda>a b. sleepScore b \<le> sleepScore a) cands
     \<and> (\<forall>x \<in> set (tieredPlan r). \<forall>y \<in> set (drop k cands). sleepScore y \<le> sleepScore x)
     \<and> (length cands = 10 \<and> status mem = Critical \<longrightarrow> length (tieredPlan r) = 8)"
proof -
  have k: "k = targetCount (status mem) (length cands)"
    using targetCount_ceiling [of "status mem" "length cands"] assms(4) by simp
  obtain r where r: "checkAndSleepTabs c host now (Some mem) tabs = Completed r"
    and plan: "tieredPlan r = take k cands"
    using checkAndSleepTabs_tiered [OF assms(1), of host now mem tabs] assms(2,3) k by auto
  have len: "length (tieredPlan r) = k"
    using plan k targetCount_le [of "status mem" "length cands"] by simp
  have desc: "sorted_wrt (\<lambda>a b. sleepScore b \<le> sleepScore a) cands"
    using assms(3) by (simp add: sleepCandidates_def sortByScore_descending)
  have top: "\<forall>x \<in> set (tieredPlan r). \<forall>y \<in> set (drop k cands). sleepScore y \<le> sleepScore x"
    using descending_take_drop [OF desc, of k] plan by simp
  have ten: "length cands = 10 \<and> status mem = Critical \<longrightarrow> length (tieredPlan r) = 8"
    using len assms(4) by auto
  from r plan len desc top ten sleepCandidates_mset [of now eff "usagePercent mem" tabs] assms(3)
  show ?thesis by blast
qed

theorem tiered_pass_selects_top_share_witness:
  "autoSleep engineAggressive
   \<and> status criticalReading = Critical
   \<and> length (sleepCandidates 100000000
        (calculateEffectiveSleepTimer engineAggressive
           (max (sleepTimer engineAggressive * 60 * 1000) (minInactiveTime engineAggressive))
           (usagePercent criticalReading))
        (usagePercent criticalReading) scenarioATabs) = 10
   \<and> (\<exists>r. checkAndSleepTabs engineAggressive alwaysResolves 100000000 (Some criticalReading)
            scenarioATabs = Completed r
          \<and> length (tieredPlan r) = 8)"
proof -
  let ?eff = "calculateEffectiveSleepTimer engineAggressive
           (max (sleepTimer engineAggressive * 60 * 1000) (minInactiveTime engineAggressive))
           (usagePercent criticalReading)"
  let ?cands = "sleepCandidates 100000000 ?eff (usagePercent criticalReading) scenarioATabs"
  have a: "autoSleep engineAggressive" by code_simp
  have s: "status criticalReading = Critical" by code_simp
  have n: "length ?cands = 10" by code_simp
  from tiered_pass_selects_top_share [OF a refl refl refl, of alwaysResolves 100000000
      criticalReading scenarioATabs] s n
  show ?thesis using a by blast
qed

subsection \<open>The emergency pass\<close>

text \<open>The pass runs exactly in aggressive mode at critical status.\<close>

lemma emergency_pass_condition:
  assumes "checkAndSleepTabs c host now (Some mem) tabs = Completed r"
  shows "emergencyRequests r \<noteq> None \<longleftrightarrow> aggressiveMode c \<and> status mem = Critical"
  using assms
  by (auto simp: checkAndSleepTabs_def Let_def split: prod.splits if_splits)

text \<open>
  Its target is the ceiling of 0.7 times the number of unprotected tabs of the snapshot,
  and the number of discards it requests is that target less the count of the tiered pass.
\<close>

lemma emergency_target:
  "length (emergencyPlan tabs alreadySlept) =
     min (nat (\<lceil>rat_of_nat (length (emergencyCandidates tabs)) * (7 / 10)\<rceil> - int alreadySlept))
       (length (emergencyCandidates tabs))"
  by (simp add: emergencyPlan_def Let_def mathCeil_def)

text \<open>The tabs it requests are the first of the snapshot's unprotected tabs in score order.\<close>

lemma emergency_requests_from_the_top:
  "emergencyPlan tabs alreadySlept =
     take (length (emergencyPlan tabs alreadySlept)) (emergencyCandidates tabs)"
  by (simp add: emergencyPlan_def Let_def min_def)

text \<open>
  C3. The claim is that the emergency pass only tops the selection up and never discards
  a tab the tiered pass has chosen. Aggressive mode, 90 percent usage, three unprotected
  tabs of which only tab 1 is due: the tiered pass discards tab 1; the emergency target is
  3, one discard is counted, and the pass requests the first two tabs of the snapshot in
  score order, which are tab 1 again and tab 2. Tab 1 is requested twice, tab 3 never, and
  three discards are reported.
\<close>

theorem emergency_pass_requests_selected_tab_again:
  "(case checkAndSleepTabs engineAggressive alwaysResolves 100000000 (Some criticalReading)
           scenarioTopUpTabs of
      NotRun reason \<Rightarrow> None
    | Completed r \<Rightarrow>
        Some (map tabId (tieredPlan r), map_option (map tabId) (emergencyRequests r),
              discardLog r, slept r))
   = Some ([1], Some [1, 2], [1, 1, 2], 3)"
  by code_simp

subsection \<open>The whitelist and the selection\<close>

text \<open>The loop of the background script never chooses a whitelisted tab.\<close>

lemma withML_skips_whitelisted:
  "t \<in> set (tabsToSleepWithML hostnameOf m optimalTime ts) \<Longrightarrow>
     \<not> isWhitelisted hostnameOf m (url t)"
  by (induction ts) (auto simp: Let_def getSleepPriority_def split: if_splits)

text \<open>
  C1. The claim is that a tab whose URL the allow-set matches is never among the tabs the
  selector discards. \<open>checkAndSleepTabs\<close> of ResourceControls has no access to the manager:
  with \<open>mail.example.com\<close> whitelisted, the mail tab, idle for two hours, is the one tab the
  tiered pass discards. The loop of the background script, on the same tabs, chooses
  nothing.
\<close>

theorem whitelisted_tab_is_discarded:
  "addToWhitelist ''mail.example.com'' newManager = Some (True, mailWhitelisted)
   \<and> getSleepPriority simpleHostname mailWhitelisted ''https://mail.example.com/inbox'' = 0
   \<and> map url scenarioTabsInfo = [''https://mail.example.com/inbox'', ''https://example.org/'']
   \<and> (case checkAndSleepTabs engineOn alwaysResolves 100000000 (Some optimalReading)
              scenarioTabsInfo of
         NotRun reason \<Rightarrow> None
       | Completed r \<Rightarrow> Some (map url (tieredPlan r), discardLog r))
      = Some ([''https://mail.example.com/inbox''], [1])
   \<and> tabsToSleepWithML simpleHostname mailWhitelisted (\<lambda>t. Num 0) scenarioTabsInfo = []"
  by code_simp

end
